theory Spec2Isabelle
  imports Complex_Main "HOL-Library.Sublist"
begin

section \<open>Values, exceptions and log records\<close>

text \<open>
  The Python objects that reach the dataset classes as filter conditions or come out of
  \<^verbatim>\<open>ast.literal_eval\<close>.  A float is carried by the exact decimal value of its literal.
\<close>

datatype pyvalue = PyNone | PyBool bool | PyInt int | PyFloat rat | PyStr string

text \<open>The payload of the \<^verbatim>\<open>ValueError\<close>s that the module and the libraries below it raise.\<close>

datatype value_error =
    ConditionsNotSupported pyvalue
  | MalformedNode
  | TargetMissing string string string "string list"
  | TaskNotRegress "string option"
  | ConcatenateError
  | NotInList

datatype exn =
    KeyError
  | OSError
  | IndexError
  | NameError string
  | SyntaxError
  | TypeError
  | ValueError value_error
  | Unmodelled

text \<open>One constructor for each logging call of the module, with the values it formats.\<close>

datatype log_record =
    LogChecking
  | LogEmpty string
  | LogOpenError
  | LogCorrupted string
  | LogFilterNotFound string
  | LogFilterOptions
  | LogFilterOption string
  | LogFilterWarning string "string list"
  | LogOnFile string

section \<open>The store\<close>

text \<open>
  A store file is the list of its entries under their names, in the order \<^verbatim>\<open>keys()\<close>
  yields them.  \<^verbatim>\<open>h5py.File(fname, "r")\<close> either raises or gives the file: a store maps a
  path to \<open>None\<close> (cannot be opened) or to the file.
\<close>

type_synonym 'e h5file = "(string \<times> 'e) list"
type_synonym 'e store = "string \<Rightarrow> 'e h5file option"

definition keys :: "(string \<times> 'v) list \<Rightarrow> string list" where
  "keys g = map fst g"

section \<open>Integrity check of the store files\<close>

text \<open>
  The first loop of \<^verbatim>\<open>_check_hdf5_files\<close>, the same in both classes: it collects the files
  to remove, and logs why.
\<close>

fun collect_remove_file :: "'e store \<Rightarrow> string list \<Rightarrow> string list \<times> log_record list" where
  "collect_remove_file st [] = ([], [])"
| "collect_remove_file st (fname # rest) =
     (let (remove_file, logs) = collect_remove_file st rest in
      case st fname of
        None \<Rightarrow> (fname # remove_file, LogOpenError # LogCorrupted fname # logs)
      | Some f \<Rightarrow>
          (if length (keys f) = 0 then (fname # remove_file, LogEmpty fname # logs)
           else (remove_file, logs)))"

text \<open>\<^verbatim>\<open>list.remove(x)\<close>: the first occurrence goes, and an absent value raises.\<close>

definition list_remove :: "'a list \<Rightarrow> 'a \<Rightarrow> exn + 'a list" where
  "list_remove xs x = (if x \<in> set xs then Inr (remove1 x xs) else Inl (ValueError NotInList))"

text \<open>
  \<^verbatim>\<open>GraphDataset._check_hdf5_files\<close>, second loop:
  \<^verbatim>\<open>for name in remove_file: self.hdf5_path.remove(name)\<close>.
\<close>

fun remove_files_graph :: "string list \<Rightarrow> string list \<Rightarrow> exn + string list" where
  "remove_files_graph hdf5_path [] = Inr hdf5_path"
| "remove_files_graph hdf5_path (name # rest) =
     (case list_remove hdf5_path name of
        Inl e \<Rightarrow> Inl e
      | Inr hdf5_path' \<Rightarrow> remove_files_graph hdf5_path' rest)"

definition check_hdf5_files_graph ::
  "'e store \<Rightarrow> string list \<Rightarrow> (exn + string list) \<times> log_record list" where
  "check_hdf5_files_graph st hdf5_path =
     (let (remove_file, logs) = collect_remove_file st hdf5_path in
      (remove_files_graph hdf5_path remove_file, LogChecking # logs))"

text \<open>
  \<^verbatim>\<open>GridDataset._check_hdf5_files\<close>, second loop:
  \<^verbatim>\<open>for hdf5_path in remove_file: self.hdf5_paths.remove(name)\<close>.
  No variable \<^verbatim>\<open>name\<close> is bound in the method or in the module, so the first iteration
  raises \<^verbatim>\<open>NameError\<close>.
\<close>

fun remove_files_grid :: "string list \<Rightarrow> string list \<Rightarrow> exn + string list" where
  "remove_files_grid hdf5_paths [] = Inr hdf5_paths"
| "remove_files_grid hdf5_paths (hdf5_path # rest) = Inl (NameError ''name'')"

definition check_hdf5_files_grid ::
  "'e store \<Rightarrow> string list \<Rightarrow> (exn + string list) \<times> log_record list" where
  "check_hdf5_files_grid st hdf5_paths =
     (let (remove_file, logs) = collect_remove_file st hdf5_paths in
      (remove_files_grid hdf5_paths remove_file, LogChecking # logs))"

text \<open>A file survives the check when it opens and has at least one entry.\<close>

definition usable :: "'e store \<Rightarrow> string \<Rightarrow> bool" where
  "usable st fname = (case st fname of None \<Rightarrow> False | Some f \<Rightarrow> f \<noteq> [])"

section \<open>Arrays\<close>

text \<open>
  The stored arrays the claims speak of are one- or two-dimensional.  A two-dimensional
  array carries its column count beside its rows, so that an array of shape \<open>(0, k)\<close>
  keeps its width.  Element values stay abstract: conversions between number types are
  not followed.
\<close>

datatype 'a ndarray = Arr1 "'a list" | Arr2 nat "'a list list"

fun wf_array :: "'a ndarray \<Rightarrow> bool" where
  "wf_array (Arr1 xs) = True"
| "wf_array (Arr2 w rows) = list_all (\<lambda>r. length r = w) rows"

text \<open>\<^verbatim>\<open>shape[0]\<close>, and the width a feature contributes per node or edge.\<close>

fun nrows :: "'a ndarray \<Rightarrow> nat" where
  "nrows (Arr1 xs) = length xs"
| "nrows (Arr2 w rows) = length rows"

fun native_width :: "'a ndarray \<Rightarrow> nat" where
  "native_width (Arr1 xs) = 1"
| "native_width (Arr2 w rows) = w"

text \<open>Row \<open>i\<close> of a feature, a one-dimensional array read as a column.\<close>

fun feature_row :: "'a ndarray \<Rightarrow> nat \<Rightarrow> 'a list" where
  "feature_row (Arr1 xs) i = [xs ! i]"
| "feature_row (Arr2 w rows) i = rows ! i"

text \<open>\<^verbatim>\<open>if vals.ndim == 1: vals = vals.reshape(-1, 1)\<close>\<close>

fun reshape_if_1d :: "'a ndarray \<Rightarrow> 'a ndarray" where
  "reshape_if_1d (Arr1 xs) = Arr2 1 (map (\<lambda>v. [v]) xs)"
| "reshape_if_1d (Arr2 w rows) = Arr2 w rows"

fun is_2d_with_rows :: "nat \<Rightarrow> 'a ndarray \<Rightarrow> bool" where
  "is_2d_with_rows n (Arr1 xs) = False"
| "is_2d_with_rows n (Arr2 w rows) = (length rows = n)"

fun is_1d :: "'a ndarray \<Rightarrow> bool" where
  "is_1d (Arr1 xs) = True"
| "is_1d (Arr2 w rows) = False"

fun flat :: "'a ndarray \<Rightarrow> 'a list" where
  "flat (Arr1 xs) = xs"
| "flat (Arr2 w rows) = concat rows"

text \<open>
  \<^verbatim>\<open>np.hstack\<close> of a tuple: no array at all is an error; one-dimensional arrays are
  joined end to end; two-dimensional ones are joined along the columns and must agree
  in their row count.
\<close>

fun hstack :: "'a ndarray list \<Rightarrow> exn + 'a ndarray" where
  "hstack [] = Inl (ValueError ConcatenateError)"
| "hstack (Arr1 xs # rest) =
     (if list_all is_1d rest then Inr (Arr1 (concat (map flat (Arr1 xs # rest))))
      else Inl (ValueError ConcatenateError))"
| "hstack (Arr2 w rows # rest) =
     (if list_all (is_2d_with_rows (length rows)) rest
      then Inr (Arr2 (sum_list (map native_width (Arr2 w rows # rest)))
                  (map (\<lambda>i. concat (map (\<lambda>a. feature_row a i) (Arr2 w rows # rest)))
                     [0..<length rows]))
      else Inl (ValueError ConcatenateError))"

text \<open>\<^verbatim>\<open>np.vstack((a, b))\<close> of two two-dimensional arrays, which must agree in width.\<close>

definition vstack :: "nat \<times> 'a list list \<Rightarrow> nat \<times> 'a list list \<Rightarrow> exn + 'a ndarray" where
  "vstack a b =
     (if fst a = fst b then Inr (Arr2 (fst a) (snd a @ snd b))
      else Inl (ValueError ConcatenateError))"

text \<open>\<^verbatim>\<open>np.flip(ind, 1)\<close> of a two-dimensional array: every row reversed.\<close>

definition flip1 :: "nat \<times> 'a list list \<Rightarrow> nat \<times> 'a list list" where
  "flip1 a = (fst a, map rev (snd a))"

text \<open>\<^verbatim>\<open>.T\<close>: the columns become the rows.\<close>

fun transpose_array :: "'a ndarray \<Rightarrow> 'a ndarray" where
  "transpose_array (Arr1 xs) = Arr1 xs"
| "transpose_array (Arr2 w rows) =
     Arr2 (length rows) (map (\<lambda>j. map (\<lambda>r. r ! j) rows) [0..<w])"

text \<open>Column \<open>k\<close> of a two-dimensional array.\<close>

fun column :: "'a ndarray \<Rightarrow> nat \<Rightarrow> 'a list" where
  "column (Arr1 xs) k = [xs ! k]"
| "column (Arr2 w rows) k = map (\<lambda>r. r ! k) rows"

text \<open>\<^verbatim>\<open>shape[1]\<close>; a one-dimensional shape has no second component.\<close>

fun shape1 :: "'a ndarray \<Rightarrow> exn + nat" where
  "shape1 (Arr1 xs) = Inl IndexError"
| "shape1 (Arr2 w rows) = Inr w"

section \<open>Entries of a store file\<close>

text \<open>
  The group of one entry.  A sub-group is an association list in key order; a sub-group
  that may be missing is an option.  The edge index and the node positions are kept
  apart from the features they are stored beside: the code reads them under fixed names
  of their own.  \<open>'g\<close> is the voxel array of one grid-mapped feature.
\<close>

record 'a edge_group =
  e_index :: "'a ndarray option"
  e_feats :: "(string \<times> 'a ndarray) list"

record ('a, 'g) entry =
  nodes :: "(string \<times> 'a ndarray) list"
  position :: "'a ndarray option"
  edges :: "'a edge_group option"
  target_values :: "(string \<times> 'a) list option"
  clustering :: "(string \<times> (string \<times> 'a ndarray) list) list option"
  mapped_features :: "(string \<times> 'g) list option"

text \<open>The sample of the graph variant (\<^verbatim>\<open>torch_geometric\<close>'s \<^verbatim>\<open>Data\<close>) and of the grid variant.\<close>

record 'a data =
  data_x :: "'a ndarray"
  data_edge_index :: "'a ndarray"
  data_edge_attr :: "'a ndarray"
  data_y :: "'a option"
  data_pos :: "'a ndarray"
  data_cluster0 :: "'a ndarray option"
  data_cluster1 :: "'a ndarray option"
  data_entry_names :: "string list"

record ('a, 'g) grid_data =
  grid_x :: "'g list"
  grid_y :: "'a"
  grid_entry_names :: "string list"

section \<open>The dataset objects\<close>

text \<open>
  Modelled from the spec: the task names of \<^verbatim>\<open>deeprankcore.domain.targetstorage\<close>, a module
  that is not among the sources; the values are the ones the docstring of the dataset
  classes gives (\<^verbatim>\<open>'regress'\<close> for regression, \<^verbatim>\<open>'classif'\<close> for classification).
\<close>

definition REGRESS :: string where
  "REGRESS = ''regress''"

definition CLASSIF :: string where
  "CLASSIF = ''classif''"

text \<open>
  The attributes of \<^verbatim>\<open>self\<close> that the methods below read, after the feature lists have been
  resolved.  The target filter is a dict, held in insertion order.
\<close>

record 'a graph_dataset =
  hdf5_path :: "string list"
  subset_ids :: "string list option"
  target :: "string option"
  task :: "string option"
  node_features :: "string list"
  edge_features :: "string list option"
  clustering_method :: "string option"
  edge_features_transform :: "'a ndarray \<Rightarrow> 'a ndarray"
  target_transform :: bool
  target_filter :: "(string \<times> pyvalue) list option"
  transform :: "('a data \<Rightarrow> 'a data) option"
  index_entries :: "(string \<times> string) list"

record grid_dataset =
  grid_hdf5_paths :: "string list"
  grid_subset :: "string list option"
  grid_target :: "string option"
  grid_features :: "string list"
  grid_target_filter :: "(string \<times> pyvalue) list option"
  grid_index_entries :: "(string \<times> string) list"

text \<open>The two \<^verbatim>\<open>torch\<close> functions of the target transform, as parameters.\<close>

record 'a torch =
  torch_sigmoid :: "'a \<Rightarrow> 'a"
  torch_log :: "'a \<Rightarrow> 'a"

section \<open>Assembly of one graph\<close>

text \<open>
  The loop over the requested features, for nodes and for edges alike: a name that
  starts with an underscore is a metafeature and is passed over, \<^verbatim>\<open>feat[0]\<close> of an empty
  name raises, a name that is not stored raises.
\<close>

fun read_features :: "(string \<times> 'a ndarray) list \<Rightarrow> string list \<Rightarrow> exn + 'a ndarray list" where
  "read_features grp [] = Inr []"
| "read_features grp (feat # feats) =
     (case feat of
        [] \<Rightarrow> Inl IndexError
      | c # cs \<Rightarrow>
          (if c \<noteq> CHR ''_'' then
             (case map_of grp feat of
                None \<Rightarrow> Inl KeyError
              | Some vals \<Rightarrow>
                  (case read_features grp feats of
                     Inl e \<Rightarrow> Inl e
                   | Inr node_data \<Rightarrow> Inr (reshape_if_1d vals # node_data)))
           else read_features grp feats))"

definition load_x :: "'a graph_dataset \<Rightarrow> ('a, 'g) entry \<Rightarrow> exn + 'a ndarray" where
  "load_x self grp =
     (case read_features (nodes grp) (node_features self) of
        Inl e \<Rightarrow> Inl e
      | Inr node_data \<Rightarrow> hstack node_data)"

text \<open>
  The edge index: \<^verbatim>\<open>np.vstack((ind, np.flip(ind, 1))).T\<close> for a two-dimensional index, the
  stored array as it is otherwise, and an empty \<open>2 \<times> 0\<close> index when none is stored.
\<close>

definition load_edge_index :: "('a, 'g) entry \<Rightarrow> exn + 'a ndarray" where
  "load_edge_index grp =
     (case edges grp of
        None \<Rightarrow> Inl KeyError
      | Some eg \<Rightarrow>
          (case e_index eg of
             Some (Arr2 w rows) \<Rightarrow>
               (case vstack (w, rows) (flip1 (w, rows)) of
                  Inl e \<Rightarrow> Inl e
                | Inr stacked \<Rightarrow> Inr (transpose_array stacked))
           | Some (Arr1 xs) \<Rightarrow> Inr (Arr1 xs)
           | None \<Rightarrow> Inr (Arr2 0 [[], []])))"

text \<open>
  The edge attributes: the requested features side by side, the rows stacked twice,
  then the configured transform, which is called on the whole array.
\<close>

definition load_edge_attr ::
  "'a graph_dataset \<Rightarrow> ('a, 'g) entry \<Rightarrow> 'a ndarray \<Rightarrow> exn + 'a ndarray" where
  "load_edge_attr self grp edge_index =
     (case (edge_features self, edges grp) of
        (Some (feat # feats), Some eg) \<Rightarrow>
          (case read_features (e_feats eg) (feat # feats) of
             Inl e \<Rightarrow> Inl e
           | Inr edge_data \<Rightarrow>
               (case hstack edge_data of
                  Inl e \<Rightarrow> Inl e
                | Inr (Arr1 xs) \<Rightarrow>
                    Inr (edge_features_transform self (Arr2 (length xs) [xs, xs]))
                | Inr (Arr2 w rows) \<Rightarrow>
                    (case vstack (w, rows) (w, rows) of
                       Inl e \<Rightarrow> Inl e
                     | Inr stacked \<Rightarrow> Inr (edge_features_transform self stacked))))
      | _ \<Rightarrow>
          (case shape1 edge_index of
             Inl e \<Rightarrow> Inl e
           | Inr n \<Rightarrow> Inr (Arr2 0 (replicate n []))))"

text \<open>
  The target.  In the \<^verbatim>\<open>elif\<close> the task is already known to differ from \<^verbatim>\<open>REGRESS\<close>, so
  the identity test \<^verbatim>\<open>is not\<close> there is true.
\<close>

definition load_y ::
  "'a torch \<Rightarrow> 'a graph_dataset \<Rightarrow> string \<Rightarrow> string \<Rightarrow> ('a, 'g) entry \<Rightarrow> exn + 'a option" where
  "load_y tc self fname entry_name grp =
     (case target self of
        None \<Rightarrow> Inr None
      | Some t \<Rightarrow>
          (case target_values grp of
             None \<Rightarrow> Inl KeyError
           | Some tv \<Rightarrow>
               (case map_of tv t of
                  Some v \<Rightarrow>
                    (if task self = Some REGRESS \<and> target_transform self
                     then Inr (Some (torch_sigmoid tc (torch_log tc v)))
                     else if task self \<noteq> Some REGRESS \<and> target_transform self
                     then Inl (ValueError (TaskNotRegress (task self)))
                     else Inr (Some v))
                | None \<Rightarrow>
                    Inl (ValueError (TargetMissing t entry_name fname (keys tv))))))"

definition load_pos :: "('a, 'g) entry \<Rightarrow> exn + 'a ndarray" where
  "load_pos grp = (case position grp of None \<Rightarrow> Inl KeyError | Some p \<Rightarrow> Inr p)"

text \<open>The two cluster levels, or none of them when anything on the way is missing.\<close>

definition load_clusters ::
  "'a graph_dataset \<Rightarrow> ('a, 'g) entry \<Rightarrow> 'a ndarray option \<times> 'a ndarray option" where
  "load_clusters self grp =
     (case clustering_method self of
        None \<Rightarrow> (None, None)
      | Some m \<Rightarrow>
          (case clustering grp of
             None \<Rightarrow> (None, None)
           | Some cl \<Rightarrow>
               (case map_of cl m of
                  None \<Rightarrow> (None, None)
                | Some levels \<Rightarrow>
                    (case (map_of levels ''depth_0'', map_of levels ''depth_1'') of
                       (Some c0, Some c1) \<Rightarrow> (Some c0, Some c1)
                     | _ \<Rightarrow> (None, None)))))"

text \<open>
  \<^verbatim>\<open>load_one_graph\<close> up to the construction of the \<^verbatim>\<open>Data\<close> object: the assembled sample.
\<close>

definition assemble_graph ::
  "'a torch \<Rightarrow> 'a graph_dataset \<Rightarrow> string \<Rightarrow> string \<Rightarrow> ('a, 'g) entry \<Rightarrow> exn + 'a data" where
  "assemble_graph tc self fname entry_name grp =
     (case load_x self grp of
        Inl e \<Rightarrow> Inl e
      | Inr x \<Rightarrow>
     (case load_edge_index grp of
        Inl e \<Rightarrow> Inl e
      | Inr edge_index \<Rightarrow>
     (case load_edge_attr self grp edge_index of
        Inl e \<Rightarrow> Inl e
      | Inr edge_attr \<Rightarrow>
     (case load_y tc self fname entry_name grp of
        Inl e \<Rightarrow> Inl e
      | Inr y \<Rightarrow>
     (case load_pos grp of
        Inl e \<Rightarrow> Inl e
      | Inr pos \<Rightarrow>
          Inr \<lparr>data_x = x, data_edge_index = edge_index, data_edge_attr = edge_attr,
               data_y = y, data_pos = pos,
               data_cluster0 = fst (load_clusters self grp),
               data_cluster1 = snd (load_clusters self grp),
               data_entry_names = [entry_name]\<rparr>)))))"

text \<open>\<^verbatim>\<open>GraphDataset.load_one_graph\<close>: open the file, assemble, apply the user's transform.\<close>

definition load_one_graph ::
  "'a torch \<Rightarrow> 'a graph_dataset \<Rightarrow> ('a, 'g) entry store \<Rightarrow> string \<Rightarrow> string \<Rightarrow> exn + 'a data" where
  "load_one_graph tc self st fname entry_name =
     (case st fname of
        None \<Rightarrow> Inl OSError
      | Some f5 \<Rightarrow>
          (case map_of f5 entry_name of
             None \<Rightarrow> Inl KeyError
           | Some grp \<Rightarrow>
               (case assemble_graph tc self fname entry_name grp of
                  Inl e \<Rightarrow> Inl e
                | Inr data \<Rightarrow>
                    (case transform self of
                       None \<Rightarrow> Inr data
                     | Some f \<Rightarrow> Inr (f data)))))"

text \<open>
  \<^verbatim>\<open>GridDataset.load_one_entry\<close>: every requested feature is read, no metafeature is
  passed over, and the target is read whether or not one is configured.
\<close>

fun read_mapped :: "(string \<times> 'g) list \<Rightarrow> string list \<Rightarrow> exn + 'g list" where
  "read_mapped grp [] = Inr []"
| "read_mapped grp (feature_name # rest) =
     (case map_of grp feature_name of
        None \<Rightarrow> Inl KeyError
      | Some v \<Rightarrow>
          (case read_mapped grp rest of
             Inl e \<Rightarrow> Inl e
           | Inr feature_data \<Rightarrow> Inr (v # feature_data)))"

definition load_one_entry ::
  "grid_dataset \<Rightarrow> ('a, 'g) entry store \<Rightarrow> string \<Rightarrow> string \<Rightarrow> exn + ('a, 'g) grid_data" where
  "load_one_entry self st file_path entry_name =
     (case st file_path of
        None \<Rightarrow> Inl OSError
      | Some hdf5_file \<Rightarrow>
     (case map_of hdf5_file entry_name of
        None \<Rightarrow> Inl KeyError
      | Some entry_group \<Rightarrow>
     (case mapped_features entry_group of
        None \<Rightarrow> Inl KeyError
      | Some mapped_features_group \<Rightarrow>
     (case read_mapped mapped_features_group (grid_features self) of
        Inl e \<Rightarrow> Inl e
      | Inr feature_data \<Rightarrow>
     (case target_values entry_group of
        None \<Rightarrow> Inl KeyError
      | Some tv \<Rightarrow>
     (case grid_target self of
        None \<Rightarrow> Inl TypeError
      | Some t \<Rightarrow>
     (case map_of tv t of
        None \<Rightarrow> Inl KeyError
      | Some target_value \<Rightarrow>
          Inr \<lparr>grid_x = feature_data, grid_y = target_value,
               grid_entry_names = [entry_name]\<rparr>)))))))"

section \<open>Python's literal evaluator\<close>

text \<open>
  \<^verbatim>\<open>ast.literal_eval\<close> belongs to Python's standard library.  It parses its argument as an
  expression and converts the syntax tree, accepting literals only.  The model covers the
  expressions written with names, decimal integer and point-float literals, the six
  comparison operators, \<^verbatim>\<open>+\<close>, \<^verbatim>\<open>-\<close> and spaces, which is what the filters below build from
  conditions such as \<^verbatim>\<open>"> 0.5"\<close>.  On any other input the model answers \<open>Unmodelled\<close> and
  says nothing.  Leading spaces are stripped, as Python does from version 3.10 on.
\<close>

datatype cmpop = Eq | NotEq | Lt | LtE | Gt | GtE
datatype unaryop = UAdd | USub
datatype operator = Add | Sub

datatype expr =
    Name string
  | Constant pyvalue
  | UnaryOp unaryop expr
  | BinOp expr operator expr
  | Compare expr "cmpop list" "expr list"

datatype token = ATOM expr | CMP cmpop | PLUS | MINUS | ERRORTOKEN | OTHER

definition is_digit :: "char \<Rightarrow> bool" where
  "is_digit c = (c \<in> set ''0123456789'')"

definition is_name_start :: "char \<Rightarrow> bool" where
  "is_name_start c = (c \<in> set ''abcdefghijklmnopqrstuvwxyzABCDEFGHIJKLMNOPQRSTUVWXYZ_'')"

definition is_name_char :: "char \<Rightarrow> bool" where
  "is_name_char c = (is_name_start c \<or> is_digit c)"

definition python_keywords :: "string list" where
  "python_keywords = [''and'', ''as'', ''assert'', ''async'', ''await'', ''break'', ''class'',
     ''continue'', ''def'', ''del'', ''elif'', ''else'', ''except'', ''finally'', ''for'',
     ''from'', ''global'', ''if'', ''import'', ''in'', ''is'', ''lambda'', ''nonlocal'',
     ''not'', ''or'', ''pass'', ''raise'', ''return'', ''try'', ''while'', ''with'',
     ''yield'']"

text \<open>
  An identifier: one of the three constant names, a keyword (outside the model), or a
  name.
\<close>

definition name_token :: "string \<Rightarrow> token" where
  "name_token w =
     (if w = ''True'' then ATOM (Constant (PyBool True))
      else if w = ''False'' then ATOM (Constant (PyBool False))
      else if w = ''None'' then ATOM (Constant PyNone)
      else if w \<in> set python_keywords then OTHER
      else ATOM (Name w))"

definition digit_value :: "char \<Rightarrow> nat" where
  "digit_value c = of_char c - 48"

definition decimal :: "string \<Rightarrow> nat" where
  "decimal ds = foldl (\<lambda>n c. 10 * n + digit_value c) 0 ds"

text \<open>
  A number that starts at the head of the string: digits, then perhaps a point and more
  digits, or a point and digits.  \<open>number_rest\<close> is what follows the number.  An integer
  other than zero must not start with a zero; a letter or underscore right after the number
  (an exponent, a suffix, a digit separator) and a point without a digit on either side
  are outside the model.
\<close>

definition after_point :: "string \<Rightarrow> string option" where
  "after_point s = (case s of c # r \<Rightarrow> (if c = CHR ''.'' then Some r else None) | [] \<Rightarrow> None)"

definition number_rest :: "string \<Rightarrow> string" where
  "number_rest s =
     (case after_point (dropWhile is_digit s) of
        Some r \<Rightarrow> dropWhile is_digit r
      | None \<Rightarrow> dropWhile is_digit s)"

definition number_token :: "string \<Rightarrow> token" where
  "number_token s =
     (let ip = takeWhile is_digit s in
      if (case number_rest s of c # r \<Rightarrow> is_name_char c | [] \<Rightarrow> False) then OTHER
      else
        (case after_point (dropWhile is_digit s) of
           Some r \<Rightarrow>
             (let fp = takeWhile is_digit r in
              if ip = [] \<and> fp = [] then OTHER
              else ATOM (Constant (PyFloat
                     (of_nat (decimal ip) + of_nat (decimal fp) / 10 ^ length fp))))
         | None \<Rightarrow>
             (if 1 < length ip \<and> hd ip = CHR ''0'' \<and> decimal ip \<noteq> 0 then ERRORTOKEN
              else ATOM (Constant (PyInt (int (decimal ip)))))))"

text \<open>
  An operator at the head of the string, longest match first, and how many characters it
  takes beyond the first.  The shifts are outside the model; \<^verbatim>\<open><>\<close>, \<^verbatim>\<open>=\<close>, \<^verbatim>\<open>!\<close>, \<^verbatim>\<open>+=\<close>, \<^verbatim>\<open>-=\<close>
  and \<^verbatim>\<open>->\<close> are tokens that no expression contains.
\<close>

definition operator_token :: "char \<Rightarrow> string \<Rightarrow> token \<times> nat" where
  "operator_token c cs =
     (let d = (case cs of [] \<Rightarrow> None | d # r \<Rightarrow> Some d) in
      if c = CHR ''<'' then
        (if d = Some CHR ''='' then (CMP LtE, 1)
         else if d = Some CHR ''<'' then (OTHER, 1)
         else if d = Some CHR ''>'' then (ERRORTOKEN, 1)
         else (CMP Lt, 0))
      else if c = CHR ''>'' then
        (if d = Some CHR ''='' then (CMP GtE, 1)
         else if d = Some CHR ''>'' then (OTHER, 1)
         else (CMP Gt, 0))
      else if c = CHR ''='' then
        (if d = Some CHR ''='' then (CMP Eq, 1) else (ERRORTOKEN, 0))
      else if c = CHR ''!'' then
        (if d = Some CHR ''='' then (CMP NotEq, 1) else (ERRORTOKEN, 0))
      else if c = CHR ''+'' then
        (if d = Some CHR ''='' then (ERRORTOKEN, 1) else (PLUS, 0))
      else if c = CHR ''-'' then
        (if d = Some CHR ''='' \<or> d = Some CHR ''>'' then (ERRORTOKEN, 1) else (MINUS, 0))
      else (OTHER, 0))"

lemma number_rest_length: "length (number_rest s) \<le> length s"
proof (cases "after_point (dropWhile is_digit s)")
  case None
  then show ?thesis
    by (simp add: number_rest_def length_dropWhile_le)
next
  case (Some r)
  then have "dropWhile is_digit s = CHR ''.'' # r"
    by (auto simp: after_point_def split: list.splits if_splits)
  then have "length r < length (dropWhile is_digit s)"
    by simp
  also have "\<dots> \<le> length s"
    by (rule length_dropWhile_le)
  finally have "length r < length s" .
  moreover have "length (dropWhile is_digit r) \<le> length r"
    by (rule length_dropWhile_le)
  ultimately show ?thesis
    using Some by (simp add: number_rest_def)
qed

function tokenize :: "string \<Rightarrow> token list" where
  "tokenize [] = []"
| "tokenize (c # cs) =
     (if c = CHR '' '' then tokenize cs
      else if is_name_start c then
        name_token (c # takeWhile is_name_char cs) # tokenize (dropWhile is_name_char cs)
      else if is_digit c then
        number_token (c # cs) # tokenize (number_rest cs)
      else if c = CHR ''.'' then
        number_token (c # cs) # tokenize (dropWhile is_digit cs)
      else
        fst (operator_token c cs) # tokenize (drop (snd (operator_token c cs)) cs))"
  by pat_completeness auto
termination
  by (relation "measure length")
     (auto simp: less_Suc_eq_le length_dropWhile_le number_rest_length)

text \<open>
  The grammar of the fragment: a comparison is a chain of sums, a sum is a chain of signed
  atoms, joined from the left.
\<close>

fun parse_factor :: "token list \<Rightarrow> (expr \<times> token list) option" where
  "parse_factor (PLUS # ts) =
     (case parse_factor ts of None \<Rightarrow> None | Some (e, r) \<Rightarrow> Some (UnaryOp UAdd e, r))"
| "parse_factor (MINUS # ts) =
     (case parse_factor ts of None \<Rightarrow> None | Some (e, r) \<Rightarrow> Some (UnaryOp USub e, r))"
| "parse_factor (ATOM e # ts) = Some (e, ts)"
| "parse_factor ts = None"

lemma parse_factor_shorter:
  "parse_factor ts = Some (e, r) \<Longrightarrow> length r < length ts"
  by (induction ts arbitrary: e rule: parse_factor.induct)
     (auto split: option.splits prod.splits)

function parse_sum_rest :: "expr \<Rightarrow> token list \<Rightarrow> expr option" where
  "parse_sum_rest left [] = Some left"
| "parse_sum_rest left (PLUS # ts) =
     (case parse_factor ts of
        None \<Rightarrow> None
      | Some (e, r) \<Rightarrow> parse_sum_rest (BinOp left Add e) r)"
| "parse_sum_rest left (MINUS # ts) =
     (case parse_factor ts of
        None \<Rightarrow> None
      | Some (e, r) \<Rightarrow> parse_sum_rest (BinOp left Sub e) r)"
| "parse_sum_rest left (ATOM e # ts) = None"
| "parse_sum_rest left (CMP c # ts) = None"
| "parse_sum_rest left (ERRORTOKEN # ts) = None"
| "parse_sum_rest left (OTHER # ts) = None"
  by pat_completeness auto
termination
  by (relation "measure (\<lambda>(left, ts). length ts)")
     (auto dest: parse_factor_shorter)

definition parse_sum :: "token list \<Rightarrow> expr option" where
  "parse_sum ts =
     (case parse_factor ts of None \<Rightarrow> None | Some (e, r) \<Rightarrow> parse_sum_rest e r)"

text \<open>The tokens up to the first comparison operator, and the operators with what follows each.\<close>

fun split_compare :: "token list \<Rightarrow> token list \<times> (cmpop \<times> token list) list" where
  "split_compare [] = ([], [])"
| "split_compare (CMP c # ts) =
     (case split_compare ts of (seg, rest) \<Rightarrow> ([], (c, seg) # rest))"
| "split_compare (t # ts) =
     (case split_compare ts of (seg, rest) \<Rightarrow> (t # seg, rest))"

definition parse_expression :: "token list \<Rightarrow> expr option" where
  "parse_expression ts =
     (case split_compare ts of
        (seg, rest) \<Rightarrow>
          (case parse_sum seg of
             None \<Rightarrow> None
           | Some left \<Rightarrow>
               (if rest = [] then Some left
                else
                  (case those (map (\<lambda>(c, s). parse_sum s) rest) of
                     None \<Rightarrow> None
                   | Some comparators \<Rightarrow> Some (Compare left (map fst rest) comparators)))))"

text \<open>
  The conversion of the tree, after \<^verbatim>\<open>_convert_num\<close>, \<^verbatim>\<open>_convert_signed_num\<close> and \<^verbatim>\<open>_convert\<close>
  of \<^verbatim>\<open>literal_eval\<close>.  A sum is accepted only with a complex right operand, which the
  fragment does not have; a name or a comparison is a malformed node.
\<close>

fun convert_num :: "expr \<Rightarrow> exn + pyvalue" where
  "convert_num (Constant (PyInt i)) = Inr (PyInt i)"
| "convert_num (Constant (PyFloat q)) = Inr (PyFloat q)"
| "convert_num e = Inl (ValueError MalformedNode)"

fun negate :: "pyvalue \<Rightarrow> pyvalue" where
  "negate (PyInt i) = PyInt (- i)"
| "negate (PyFloat q) = PyFloat (- q)"
| "negate v = v"

fun convert_signed_num :: "expr \<Rightarrow> exn + pyvalue" where
  "convert_signed_num (UnaryOp UAdd operand) = convert_num operand"
| "convert_signed_num (UnaryOp USub operand) =
     (case convert_num operand of Inl e \<Rightarrow> Inl e | Inr v \<Rightarrow> Inr (negate v))"
| "convert_signed_num e = convert_num e"

fun convert :: "expr \<Rightarrow> exn + pyvalue" where
  "convert (Constant v) = Inr v"
| "convert (BinOp l opr r) =
     (case convert_signed_num l of
        Inl e \<Rightarrow> Inl e
      | Inr left \<Rightarrow>
          (case convert_num r of
             Inl e \<Rightarrow> Inl e
           | Inr right \<Rightarrow> convert_signed_num (BinOp l opr r)))"
| "convert e = convert_signed_num e"

definition py_literal_eval :: "string \<Rightarrow> exn + pyvalue" where
  "py_literal_eval s =
     (let ts = tokenize s in
      if OTHER \<in> set ts then Inl Unmodelled
      else if ERRORTOKEN \<in> set ts then Inl SyntaxError
      else (case parse_expression ts of None \<Rightarrow> Inl SyntaxError | Some e \<Rightarrow> convert e))"

text \<open>
  The truth value of an object, for \<^verbatim>\<open>not\<close>.  A float literal is zero when it rounds to
  zero, that is when it is at most \<open>2\<^sup>-\<^sup>1\<^sup>0\<^sup>7\<^sup>5\<close> in size.
\<close>

fun truthy :: "pyvalue \<Rightarrow> bool" where
  "truthy PyNone = False"
| "truthy (PyBool b) = b"
| "truthy (PyInt i) = (i \<noteq> 0)"
| "truthy (PyFloat q) = (1 / 2 ^ 1075 < \<bar>q\<bar>)"
| "truthy (PyStr s) = (s \<noteq> [])"

text \<open>\<^verbatim>\<open>str.replace(old, new)\<close>: the occurrences of \<open>old\<close> from the left, without overlap.\<close>

function str_replace :: "string \<Rightarrow> string \<Rightarrow> string \<Rightarrow> string" where
  "str_replace [] old new = (if old = [] then new else [])"
| "str_replace (c # cs) old new =
     (if old = [] then new @ c # str_replace cs old new
      else if prefix old (c # cs) then new @ str_replace (drop (length old) (c # cs)) old new
      else c # str_replace cs old new)"
  by pat_completeness auto
termination
  by (relation "measure (\<lambda>(s, old, new). length s)") auto

section \<open>The target filters\<close>

text \<open>
  Both filters take the literal evaluator as a parameter, so that what is proved of them
  for every evaluator does not rest on the model of the evaluator above.  They return
  their result, or the exception they raise, beside the records they log.
\<close>

text \<open>
  \<^verbatim>\<open>GraphDataset._filter\<close> puts \<^verbatim>\<open>val\<close> before each of three operators.
\<close>

definition substitute_val :: "string \<Rightarrow> string" where
  "substitute_val cond_vals =
     foldl (\<lambda>new_cond_vals opr. str_replace new_cond_vals opr (''val'' @ opr))
       cond_vals [''>'', ''<'', ''=='']"

text \<open>
  The loop of \<^verbatim>\<open>GraphDataset._filter\<close>.  When the name is not stored the handler logs the
  names that are, and the body goes on to the condition all the same.  When the entry has
  no target group, the handler itself raises.
\<close>

fun graph_filter_items ::
  "(string \<Rightarrow> exn + pyvalue) \<Rightarrow> (string \<times> pyvalue) list \<Rightarrow> ('a, 'g) entry
     \<Rightarrow> (exn + bool) \<times> log_record list" where
  "graph_filter_items literal_eval [] molgrp = (Inr True, [])"
| "graph_filter_items literal_eval ((cond_name, cond_vals) # rest) molgrp =
     (case target_values molgrp of
        None \<Rightarrow> (Inl KeyError, [LogFilterNotFound cond_name, LogFilterOptions])
      | Some tv \<Rightarrow>
          (let logs =
             (if cond_name \<in> set (keys tv) then []
              else LogFilterNotFound cond_name # LogFilterOptions
                     # map LogFilterOption (keys tv))
           in
             (case cond_vals of
                PyStr s \<Rightarrow>
                  (case literal_eval (substitute_val s) of
                     Inl e \<Rightarrow> (Inl e, logs)
                   | Inr v \<Rightarrow>
                       (if \<not> truthy v then (Inr False, logs)
                        else
                          (case graph_filter_items literal_eval rest molgrp of
                             (r, logs') \<Rightarrow> (r, logs @ logs'))))
              | _ \<Rightarrow> (Inl (ValueError (ConditionsNotSupported cond_vals)), logs))))"

definition graph_filter ::
  "(string \<Rightarrow> exn + pyvalue) \<Rightarrow> 'a graph_dataset \<Rightarrow> ('a, 'g) entry
     \<Rightarrow> (exn + bool) \<times> log_record list" where
  "graph_filter literal_eval self molgrp =
     (case target_filter self of
        None \<Rightarrow> (Inr True, [])
      | Some tf \<Rightarrow> graph_filter_items literal_eval tf molgrp)"

text \<open>
  \<^verbatim>\<open>GridDataset._filter_targets\<close> puts \<^verbatim>\<open>target_value\<close> before each of six operators, one
  after the other.
\<close>

definition substitute_target_value :: "string \<Rightarrow> string" where
  "substitute_target_value target_condition =
     foldl (\<lambda>operation operator_string.
              str_replace operation operator_string (''target_value'' @ operator_string))
       target_condition [''>'', ''<'', ''=='', ''<='', ''>='', ''!='']"

fun grid_filter_items ::
  "(string \<Rightarrow> exn + pyvalue) \<Rightarrow> (string \<times> pyvalue) list \<Rightarrow> ('a, 'g) entry
     \<Rightarrow> (exn + bool) \<times> log_record list" where
  "grid_filter_items literal_eval [] entry_group = (Inr True, [])"
| "grid_filter_items literal_eval ((target_name, target_condition) # rest) entry_group =
     (case target_values entry_group of
        None \<Rightarrow> (Inl KeyError, [])
      | Some tv \<Rightarrow>
          (if target_name \<in> set (keys tv) then
             (case target_condition of
                PyStr s \<Rightarrow>
                  (case literal_eval (substitute_target_value s) of
                     Inl e \<Rightarrow> (Inl e, [])
                   | Inr v \<Rightarrow>
                       (if \<not> truthy v then (Inr False, [])
                        else grid_filter_items literal_eval rest entry_group))
              | PyNone \<Rightarrow> grid_filter_items literal_eval rest entry_group
              | _ \<Rightarrow> (Inl (ValueError (ConditionsNotSupported target_condition)), []))
           else
             (case grid_filter_items literal_eval rest entry_group of
                (r, logs) \<Rightarrow> (r, LogFilterWarning target_name (keys tv) # logs))))"

definition grid_filter_targets ::
  "(string \<Rightarrow> exn + pyvalue) \<Rightarrow> grid_dataset \<Rightarrow> ('a, 'g) entry
     \<Rightarrow> (exn + bool) \<times> log_record list" where
  "grid_filter_targets literal_eval self entry_group =
     (case grid_target_filter self of
        None \<Rightarrow> (Inr True, [])
      | Some tf \<Rightarrow> grid_filter_items literal_eval tf entry_group)"

section \<open>The index\<close>

text \<open>
  \<^verbatim>\<open>_create_index_entries\<close> is the same loop in both classes, up to the filter it calls.
  The names to visit in one file: all its keys, or the subset's names that are keys.
\<close>

definition mol_names_of :: "string list option \<Rightarrow> 'e h5file \<Rightarrow> string list" where
  "mol_names_of sub fh5 =
     (case sub of
        None \<Rightarrow> keys fh5
      | Some ids \<Rightarrow> filter (\<lambda>i. i \<in> set (keys fh5)) ids)"

text \<open>
  The inner loop.  An exception ends it; the entries appended before stay in the index.
\<close>

fun scan_entries ::
  "('e \<Rightarrow> exn + bool) \<Rightarrow> string \<Rightarrow> 'e h5file \<Rightarrow> string list
     \<Rightarrow> (string \<times> string) list \<times> exn option" where
  "scan_entries flt fdata fh5 [] = ([], None)"
| "scan_entries flt fdata fh5 (k # mol_names) =
     (case map_of fh5 k of
        None \<Rightarrow> ([], Some KeyError)
      | Some molgrp \<Rightarrow>
          (case flt molgrp of
             Inl e \<Rightarrow> ([], Some e)
           | Inr keep \<Rightarrow>
               (case scan_entries flt fdata fh5 mol_names of
                  (found, raised) \<Rightarrow> ((if keep then [(fdata, k)] else []) @ found, raised))))"

text \<open>The body of the outer loop: the \<^verbatim>\<open>try\<close> block catches every exception and logs it.\<close>

definition file_index_entries ::
  "('e \<Rightarrow> exn + bool) \<Rightarrow> string list option \<Rightarrow> 'e store \<Rightarrow> string
     \<Rightarrow> (string \<times> string) list \<times> log_record list" where
  "file_index_entries flt sub st fdata =
     (case st fdata of
        None \<Rightarrow> ([], [LogOnFile fdata])
      | Some fh5 \<Rightarrow>
          (case scan_entries flt fdata fh5 (mol_names_of sub fh5) of
             (found, None) \<Rightarrow> (found, [])
           | (found, Some e) \<Rightarrow> (found, [LogOnFile fdata])))"

fun index_files ::
  "('e \<Rightarrow> exn + bool) \<Rightarrow> string list option \<Rightarrow> 'e store \<Rightarrow> string list
     \<Rightarrow> (string \<times> string) list" where
  "index_files flt sub st [] = []"
| "index_files flt sub st (fdata # rest) =
     fst (file_index_entries flt sub st fdata) @ index_files flt sub st rest"

definition graph_create_index_entries ::
  "(string \<Rightarrow> exn + pyvalue) \<Rightarrow> 'a graph_dataset \<Rightarrow> ('a, 'g) entry store
     \<Rightarrow> 'a graph_dataset" where
  "graph_create_index_entries literal_eval self st =
     self\<lparr>index_entries :=
       index_files (\<lambda>molgrp. fst (graph_filter literal_eval self molgrp))
         (subset_ids self) st (hdf5_path self)\<rparr>"

definition grid_create_index_entries ::
  "(string \<Rightarrow> exn + pyvalue) \<Rightarrow> grid_dataset \<Rightarrow> ('a, 'g) entry store \<Rightarrow> grid_dataset" where
  "grid_create_index_entries literal_eval self st =
     self\<lparr>grid_index_entries :=
       index_files (\<lambda>entry_group. fst (grid_filter_targets literal_eval self entry_group))
         (grid_subset self) st (grid_hdf5_paths self)\<rparr>"

section \<open>Length and access\<close>

text \<open>
  \<^verbatim>\<open>self.index_entries[index]\<close>: a Python list takes an index from \<open>-n\<close> up to \<open>n - 1\<close>, the
  negative ones counting from the end.
\<close>

definition list_getitem :: "'a list \<Rightarrow> int \<Rightarrow> exn + 'a" where
  "list_getitem xs i =
     (if 0 \<le> i \<and> i < int (length xs) then Inr (xs ! nat i)
      else if - int (length xs) \<le> i \<and> i < 0 then Inr (xs ! nat (i + int (length xs)))
      else Inl IndexError)"

definition graph_len :: "'a graph_dataset \<Rightarrow> int" where
  "graph_len self = int (length (index_entries self))"

definition graph_get ::
  "'a torch \<Rightarrow> 'a graph_dataset \<Rightarrow> ('a, 'g) entry store \<Rightarrow> int \<Rightarrow> exn + 'a data" where
  "graph_get tc self st index =
     (case list_getitem (index_entries self) index of
        Inl e \<Rightarrow> Inl e
      | Inr (fname, mol) \<Rightarrow> load_one_graph tc self st fname mol)"

definition grid_len :: "grid_dataset \<Rightarrow> int" where
  "grid_len self = int (length (grid_index_entries self))"

definition grid_get ::
  "grid_dataset \<Rightarrow> ('a, 'g) entry store \<Rightarrow> int \<Rightarrow> exn + ('a, 'g) grid_data" where
  "grid_get self st index =
     (case list_getitem (grid_index_entries self) index of
        Inl e \<Rightarrow> Inl e
      | Inr (file_path, entry_name) \<Rightarrow> load_one_entry self st file_path entry_name)"

section \<open>A small store\<close>

text \<open>
  One file \<open>a.hdf5\<close> with three entries of two nodes and one stored edge each, an empty
  file \<open>b.hdf5\<close>, and no other file.  The target transform is the one of \<^verbatim>\<open>torch\<close> on the
  reals.
\<close>

definition example_entry :: "(real, unit) entry" where
  "example_entry =
     \<lparr>nodes = [(''_meta'', Arr1 [7, 7]), (''bsa'', Arr1 [1, 2]),
               (''pssm'', Arr2 2 [[3, 4], [5, 6]])],
      position = Some (Arr2 3 [[0, 0, 0], [1, 1, 1]]),
      edges = Some \<lparr>e_index = Some (Arr2 2 [[0, 1]]), e_feats = [(''dist'', Arr1 [5])]\<rparr>,
      target_values = Some [(''a'', 10)],
      clustering = None,
      mapped_features = Some [(''voxels'', ())]\<rparr>"

definition example_store :: "(real, unit) entry store" where
  "example_store =
     (\<lambda>p. None)
       (''a.hdf5'' := Some [(''e1'', example_entry), (''e2'', example_entry),
                            (''e3'', example_entry)],
        ''b.hdf5'' := Some [])"

definition real_torch :: "real torch" where
  "real_torch = \<lparr>torch_sigmoid = (\<lambda>v. 1 / (1 + exp (- v))), torch_log = ln\<rparr>"

text \<open>Application of a function to every element, as numpy's arithmetic does.\<close>

fun map_array :: "('a \<Rightarrow> 'b) \<Rightarrow> 'a ndarray \<Rightarrow> 'b ndarray" where
  "map_array f (Arr1 xs) = Arr1 (map f xs)"
| "map_array f (Arr2 w rows) = Arr2 w (map (map f) rows)"

definition example_graph_dataset :: "real graph_dataset" where
  "example_graph_dataset =
     \<lparr>hdf5_path = [''a.hdf5''], subset_ids = None, target = Some ''a'',
      task = Some REGRESS, node_features = [''_meta'', ''bsa'', ''pssm''],
      edge_features = Some [''dist''], clustering_method = Some ''mcl'',
      edge_features_transform = map_array (\<lambda>v. v),
      target_transform = False, target_filter = None, transform = None,
      index_entries = [(''a.hdf5'', ''e1'')]\<rparr>"

definition example_grid_dataset :: grid_dataset where
  "example_grid_dataset =
     \<lparr>grid_hdf5_paths = [''a.hdf5''], grid_subset = None, grid_target = Some ''a'',
      grid_features = [''voxels''], grid_target_filter = None,
      grid_index_entries = [(''a.hdf5'', ''e1'')]\<rparr>"

text \<open>
  An edge-feature transform that is not elementwise:
  \<^verbatim>\<open>lambda x: x + np.arange(len(x)).reshape(-1, 1)\<close> adds to each row its number.
\<close>

fun add_row_number :: "real ndarray \<Rightarrow> real ndarray" where
  "add_row_number (Arr1 xs) = Arr1 (map (\<lambda>(i, v). v + real i) (enumerate 0 xs))"
| "add_row_number (Arr2 w rows) =
     Arr2 w (map (\<lambda>(i, r). map (\<lambda>v. v + real i) r) (enumerate 0 rows))"

text \<open>Whether a feature name is passed over by the assembly.\<close>

definition is_metafeature :: "string \<Rightarrow> bool" where
  "is_metafeature feat = (case feat of [] \<Rightarrow> False | c # cs \<Rightarrow> c = CHR ''_'')"

section \<open>Entries that load\<close>




section \<open>Properties of the integrity check\<close>

lemma collect_remove_file_fst:
  "fst (collect_remove_file st ps) = filter (\<lambda>p. \<not> usable st p) ps"
  by (induction ps) (auto simp: usable_def keys_def split: prod.splits option.splits)

lemma remove_files_graph_filter:
  "remove_files_graph (pre @ ps) (filter (\<lambda>p. \<not> P p) ps) = Inr (pre @ filter P ps)"
  if "\<forall>p \<in> set pre. P p"
  using that
proof (induction ps arbitrary: pre)
  case Nil
  then show ?case by simp
next
  case (Cons p ps)
  show ?case
  proof (cases "P p")
    case True
    with Cons.prems have "\<forall>q \<in> set (pre @ [p]). P q" by simp
    from Cons.IH [OF this] True show ?thesis by simp
  next
    case False
    with Cons.prems have "p \<notin> set pre" by auto
    then have "remove1 p (pre @ p # ps) = pre @ ps"
      by (simp add: remove1_append)
    with False Cons.IH [OF Cons.prems] show ?thesis
      by (simp add: list_remove_def)
  qed
qed

lemma check_hdf5_files_graph_result:
  "fst (check_hdf5_files_graph st ps) = Inr (filter (usable st) ps)"
proof -
  have "remove_files_graph ([] @ ps) (filter (\<lambda>p. \<not> usable st p) ps)
          = Inr ([] @ filter (usable st) ps)"
    by (rule remove_files_graph_filter) simp
  then show ?thesis
    using collect_remove_file_fst [of st ps]
    by (cases "collect_remove_file st ps") (simp add: check_hdf5_files_graph_def)
qed

text \<open>
  The graph variant keeps what C2 asks: its check never raises, it leaves exactly the files
  that open and are not empty, in their order, and it logs a record for each file it drops.
\<close>

lemma check_hdf5_files_graph_logs:
  "p \<in> set ps \<Longrightarrow> \<not> usable st p \<Longrightarrow>
     LogEmpty p \<in> set (snd (check_hdf5_files_graph st ps))
     \<or> LogCorrupted p \<in> set (snd (check_hdf5_files_graph st ps))"
proof -
  have "p \<in> set ps \<Longrightarrow> \<not> usable st p \<Longrightarrow>
          LogEmpty p \<in> set (snd (collect_remove_file st ps))
          \<or> LogCorrupted p \<in> set (snd (collect_remove_file st ps))"
    by (induction ps) (auto simp: usable_def keys_def split: prod.splits option.splits)
  then show "p \<in> set ps \<Longrightarrow> \<not> usable st p \<Longrightarrow> ?thesis"
    by (cases "collect_remove_file st ps") (auto simp: check_hdf5_files_graph_def)
qed

text \<open>
  C2: during construction of either dataset variant, every store file that is empty or
  cannot be opened is dropped with a logged message and the integrity check raises
  nothing.  The grid variant breaks this: with one good file \<open>a.hdf5\<close> and one empty file
  \<open>b.hdf5\<close> its check raises \<^verbatim>\<open>NameError\<close>, where the graph variant returns \<open>[a.hdf5]\<close>.
\<close>

theorem check_hdf5_files_grid_raises:
  "fst (check_hdf5_files_grid
          ((\<lambda>p. None)(''a.hdf5'' := Some [(''e1'', ())], ''b.hdf5'' := Some []))
          [''a.hdf5'', ''b.hdf5'']) = Inl (NameError ''name'')
   \<and> fst (check_hdf5_files_graph
          ((\<lambda>p. None)(''a.hdf5'' := Some [(''e1'', ())], ''b.hdf5'' := Some []))
          [''a.hdf5'', ''b.hdf5'']) = Inr [''a.hdf5'']"
  by (simp add: check_hdf5_files_grid_def check_hdf5_files_graph_def keys_def
      list_remove_def)


section \<open>Properties of the index\<close>

lemma keys_map_of: "k \<in> set (keys g) \<longleftrightarrow> map_of g k \<noteq> None"
  by (simp add: keys_def map_of_eq_None_iff)

lemma scan_entries_subseq:
  "subseq (fst (scan_entries flt fdata fh5 ks)) (map (Pair fdata) ks)"
proof (induction ks)
  case Nil
  then show ?case by simp
next
  case (Cons k ks)
  then show ?case
    by (auto split: option.splits sum.splits prod.splits)
qed

lemma scan_entries_keep_all:
  assumes "\<forall>g. flt g = Inr True" and "set ks \<subseteq> set (keys fh5)"
  shows "scan_entries flt fdata fh5 ks = (map (Pair fdata) ks, None)"
  using assms(2)
proof (induction ks)
  case Nil
  then show ?case by simp
next
  case (Cons k ks)
  then obtain g where "map_of fh5 k = Some g"
    using keys_map_of [of k fh5] by auto
  with Cons assms(1) show ?case by simp
qed

lemma file_index_entries_subset:
  assumes "st fdata = Some fh5"
  shows "subseq (fst (file_index_entries flt (Some ids) st fdata))
           (map (Pair fdata) (filter (\<lambda>i. i \<in> set (keys fh5)) ids))"
    and "\<forall>g. flt g = Inr True \<Longrightarrow>
           file_index_entries flt (Some ids) st fdata
             = (map (Pair fdata) (filter (\<lambda>i. i \<in> set (keys fh5)) ids), [])"
proof -
  let ?names = "filter (\<lambda>i. i \<in> set (keys fh5)) ids"
  have names: "mol_names_of (Some ids) fh5 = ?names"
    by (simp add: mol_names_of_def)
  have "fst (file_index_entries flt (Some ids) st fdata)
          = fst (scan_entries flt fdata fh5 ?names)"
    using assms by (simp add: file_index_entries_def names split: prod.splits option.splits)
  then show "subseq (fst (file_index_entries flt (Some ids) st fdata))
               (map (Pair fdata) ?names)"
    by (simp add: scan_entries_subseq)
  show "file_index_entries flt (Some ids) st fdata = (map (Pair fdata) ?names, [])"
    if "\<forall>g. flt g = Inr True"
  proof -
    have "set ?names \<subseteq> set (keys fh5)" by auto
    from scan_entries_keep_all [OF that this]
    show ?thesis using assms by (simp add: file_index_entries_def names)
  qed
qed




lemma index_files_concat:
  "index_files flt sub st paths
     = concat (map (\<lambda>fdata. fst (file_index_entries flt sub st fdata)) paths)"
  by (induction paths) simp_all

text \<open>
  C10: with a subset, the index entries of one store file follow the order of the subset
  list, restricted to the ids that are keys of the file; ids that the file does not hold
  are passed over, with no error and no log record.  In both variants the entries of a
  file are a subsequence of the subset's present ids paired with the file (the filter may
  drop some), and all of them, with an empty log, when no target filter is set.
\<close>

theorem subset_order_index:
  assumes "st fdata = Some fh5"
  shows "subseq (fst (file_index_entries (\<lambda>g. fst (graph_filter le gs g)) (Some ids) st fdata))
           (map (Pair fdata) (filter (\<lambda>i. i \<in> set (keys fh5)) ids))
         \<and> subseq
             (fst (file_index_entries (\<lambda>g. fst (grid_filter_targets le ds g)) (Some ids) st fdata))
             (map (Pair fdata) (filter (\<lambda>i. i \<in> set (keys fh5)) ids))
         \<and> (target_filter gs = None \<longrightarrow>
              file_index_entries (\<lambda>g. fst (graph_filter le gs g)) (Some ids) st fdata
                = (map (Pair fdata) (filter (\<lambda>i. i \<in> set (keys fh5)) ids), []))
         \<and> (grid_target_filter ds = None \<longrightarrow>
              file_index_entries (\<lambda>g. fst (grid_filter_targets le ds g)) (Some ids) st fdata
                = (map (Pair fdata) (filter (\<lambda>i. i \<in> set (keys fh5)) ids), []))"
proof -
  let ?gf = "\<lambda>g. fst (graph_filter le gs g)"
  let ?df = "\<lambda>g. fst (grid_filter_targets le ds g)"
  note graph = file_index_entries_subset
    [where st = st and fdata = fdata and flt = ?gf and ids = ids, OF assms]
  note grid = file_index_entries_subset
    [where st = st and fdata = fdata and flt = ?df and ids = ids, OF assms]
  have "\<forall>g. ?gf g = Inr True" if "target_filter gs = None"
    using that by (simp add: graph_filter_def)
  then have a: "target_filter gs = None \<longrightarrow>
      file_index_entries ?gf (Some ids) st fdata
        = (map (Pair fdata) (filter (\<lambda>i. i \<in> set (keys fh5)) ids), [])"
    using graph(2) by blast
  have "\<forall>g. ?df g = Inr True" if "grid_target_filter ds = None"
    using that by (simp add: grid_filter_targets_def)
  then have b: "grid_target_filter ds = None \<longrightarrow>
      file_index_entries ?df (Some ids) st fdata
        = (map (Pair fdata) (filter (\<lambda>i. i \<in> set (keys fh5)) ids), [])"
    using grid(2) by blast
  from graph(1) grid(1) a b show ?thesis by blast
qed

lemmas example_defs =
  example_entry_def example_store_def example_graph_dataset_def example_grid_dataset_def
  keys_def

theorem subset_order_index_witness:
  "index_entries (graph_create_index_entries py_literal_eval
      (example_graph_dataset\<lparr>subset_ids := Some [''e3'', ''zz'', ''e1'']\<rparr>) example_store)
     = [(''a.hdf5'', ''e3''), (''a.hdf5'', ''e1'')]
   \<and> grid_index_entries (grid_create_index_entries py_literal_eval
      (example_grid_dataset\<lparr>grid_subset := Some [''e3'', ''zz'', ''e1'']\<rparr>) example_store)
     = [(''a.hdf5'', ''e3''), (''a.hdf5'', ''e1'')]"
proof -
  have st: "example_store ''a.hdf5''
              = Some [(''e1'', example_entry), (''e2'', example_entry), (''e3'', example_entry)]"
    by (simp add: example_store_def)
  show ?thesis
    using subset_order_index [where st = example_store and fdata = "''a.hdf5''"
        and le = py_literal_eval and gs = example_graph_dataset
        and ids = "[''e3'', ''zz'', ''e1'']" and ds = example_grid_dataset, OF st]
    by (simp add: graph_create_index_entries_def grid_create_index_entries_def
        graph_filter_def grid_filter_targets_def
        example_graph_dataset_def example_grid_dataset_def keys_def)
qed

lemmas assembly_defs =
  graph_get_def grid_get_def list_getitem_def graph_len_def grid_len_def
  load_one_graph_def assemble_graph_def load_x_def load_edge_index_def
  load_edge_attr_def load_y_def load_pos_def load_clusters_def load_one_entry_def
  vstack_def flip1_def REGRESS_def upt_rec

section \<open>Properties of the target filters\<close>

lemmas literal_eval_defs =
  py_literal_eval_def is_digit_def is_name_start_def is_name_char_def name_token_def
  python_keywords_def number_token_def number_rest_def after_point_def operator_token_def
  parse_expression_def parse_sum_def decimal_def digit_value_def
  substitute_val_def substitute_target_value_def

text \<open>
  Whatever its operands are, a comparison is a malformed node for the evaluator, and so
  is a name.
\<close>

lemma convert_compare: "convert (Compare left ops comparators) = Inl (ValueError MalformedNode)"
  by simp

lemma convert_name: "convert (Name n) = Inl (ValueError MalformedNode)"
  by simp

text \<open>
  What the two filters hand to the evaluator for the six operators, and what comes back:
  a comparison is no literal, and \<^verbatim>\<open>val\<close> is not put before \<^verbatim>\<open>!=\<close>.
\<close>

lemma six_operators_grid:
  "map (\<lambda>c. py_literal_eval (substitute_target_value c))
     [''> 5'', ''< 5'', ''== 5'', ''<= 5'', ''>= 5'', ''!= 5'']
   = [Inl (ValueError MalformedNode), Inl (ValueError MalformedNode),
      Inl (ValueError MalformedNode), Inl (ValueError MalformedNode),
      Inl (ValueError MalformedNode), Inl (ValueError MalformedNode)]"
  by (simp add: literal_eval_defs)

lemma six_operators_graph:
  "map (\<lambda>c. py_literal_eval (substitute_val c))
     [''> 5'', ''< 5'', ''== 5'', ''<= 5'', ''>= 5'', ''!= 5'']
   = [Inl (ValueError MalformedNode), Inl (ValueError MalformedNode),
      Inl (ValueError MalformedNode), Inl (ValueError MalformedNode),
      Inl (ValueError MalformedNode), Inl SyntaxError]"
  by (simp add: literal_eval_defs)

text \<open>
  C1: a condition such as \<^verbatim>\<open>"> 5"\<close> is evaluated as a comparison with the stored target
  value on the left, and the entry is kept iff the comparison holds.  The code breaks this:
  with the filter \<^verbatim>\<open>{"a": "> 5"}\<close> and an entry whose target \<open>a\<close> is \<open>10\<close>, both filters hand
  the text \<^verbatim>\<open>val> 5\<close> or \<^verbatim>\<open>target_value> 5\<close> to the literal evaluator, which raises
  \<^verbatim>\<open>ValueError\<close>; the index of the file comes out empty.
\<close>

theorem filter_comparison_raises:
  "fst (grid_filter_targets py_literal_eval
          (example_grid_dataset\<lparr>grid_target_filter := Some [(''a'', PyStr ''> 5'')]\<rparr>)
          example_entry) = Inl (ValueError MalformedNode)
   \<and> fst (graph_filter py_literal_eval
          (example_graph_dataset\<lparr>target_filter := Some [(''a'', PyStr ''> 5'')]\<rparr>)
          example_entry) = Inl (ValueError MalformedNode)
   \<and> index_entries (graph_create_index_entries py_literal_eval
          (example_graph_dataset\<lparr>target_filter := Some [(''a'', PyStr ''> 5'')]\<rparr>)
          example_store) = []"
  by (simp add: literal_eval_defs example_defs graph_filter_def grid_filter_targets_def
      graph_create_index_entries_def file_index_entries_def mol_names_of_def)

text \<open>
  The grid variant keeps what C3 asks: a filter name that the entry does not store is
  passed over with one warning that lists the stored names.
\<close>

lemma grid_filter_missing_target:
  assumes "target_values g = Some tv" and "n \<notin> set (keys tv)"
  shows "fst (grid_filter_items le ((n, c) # rest) g) = fst (grid_filter_items le rest g)"
    and "snd (grid_filter_items le ((n, c) # rest) g)
           = LogFilterWarning n (keys tv) # snd (grid_filter_items le rest g)"
  using assms by (simp_all split: prod.splits)

text \<open>
  C3: a filter on a target name that the entry does not store is passed over with a
  warning, and never rejects the entry or raises.  The graph variant breaks this: with the
  filter \<^verbatim>\<open>{"b": "> 5"}\<close> and an entry that stores only \<open>a\<close>, it logs the miss and goes on to
  evaluate the condition, which raises; with the condition \<^verbatim>\<open>"0"\<close> it rejects the entry.
  The grid variant keeps the entry.
\<close>

theorem graph_filter_missing_target_raises:
  "graph_filter py_literal_eval
     (example_graph_dataset\<lparr>target_filter := Some [(''b'', PyStr ''> 5'')]\<rparr>) example_entry
   = (Inl (ValueError MalformedNode),
      [LogFilterNotFound ''b'', LogFilterOptions, LogFilterOption ''a''])
   \<and> graph_filter py_literal_eval
     (example_graph_dataset\<lparr>target_filter := Some [(''b'', PyStr ''0'')]\<rparr>) example_entry
   = (Inr False, [LogFilterNotFound ''b'', LogFilterOptions, LogFilterOption ''a''])
   \<and> grid_filter_targets py_literal_eval
     (example_grid_dataset\<lparr>grid_target_filter := Some [(''b'', PyStr ''> 5'')]\<rparr>) example_entry
   = (Inr True, [LogFilterWarning ''b'' [''a'']])"
  by (simp add: literal_eval_defs example_defs graph_filter_def grid_filter_targets_def)




section \<open>Properties of the assembly\<close>

lemma reshape_if_1d_facts:
  "native_width (reshape_if_1d s) = native_width s"
  "nrows (reshape_if_1d s) = nrows s"
  "is_2d_with_rows n (reshape_if_1d s) \<longleftrightarrow> nrows s = n"
  "i < nrows s \<Longrightarrow> feature_row (reshape_if_1d s) i = feature_row s i"
  "\<exists>w rows. reshape_if_1d s = Arr2 w rows"
  by (cases s; simp)+

lemma read_features_stored:
  "read_features grp feats = Inr arrs \<Longrightarrow>
     \<exists>stored. map (map_of grp) (filter (\<lambda>f. \<not> is_metafeature f) feats) = map Some stored
       \<and> arrs = map reshape_if_1d stored"
proof (induction feats arbitrary: arrs)
  case Nil
  then show ?case by simp
next
  case (Cons feat feats)
  show ?case
  proof (cases "is_metafeature feat")
    case True
    with Cons.prems have "read_features grp feats = Inr arrs"
      by (auto simp: is_metafeature_def split: list.splits)
    from Cons.IH [OF this] True show ?thesis by simp
  next
    case False
    with Cons.prems obtain vals rest where v: "map_of grp feat = Some vals"
      and r: "read_features grp feats = Inr rest" and a: "arrs = reshape_if_1d vals # rest"
      by (auto simp: is_metafeature_def split: list.splits option.splits sum.splits if_splits)
    from Cons.IH [OF r] obtain stored where
      "map (map_of grp) (filter (\<lambda>f. \<not> is_metafeature f) feats) = map Some stored"
      "rest = map reshape_if_1d stored" by blast
    with False v a have
      "map (map_of grp) (filter (\<lambda>f. \<not> is_metafeature f) (feat # feats)) = map Some (vals # stored)
       \<and> arrs = map reshape_if_1d (vals # stored)"
      by simp
    then show ?thesis by blast
  qed
qed

lemma hstack_reshaped:
  assumes "hstack (map reshape_if_1d stored) = Inr a"
  shows "\<exists>rows. a = Arr2 (sum_list (map native_width stored)) rows
           \<and> list_all (\<lambda>s. nrows s = length rows) stored
           \<and> (\<forall>i<length rows. rows ! i = concat (map (\<lambda>s. feature_row s i) stored))"
proof (cases stored)
  case Nil
  with assms show ?thesis by simp
next
  case (Cons s rest)
  obtain w0 rows0 where s: "reshape_if_1d s = Arr2 w0 rows0"
    using reshape_if_1d_facts(5) by blast
  let ?n = "length rows0"
  let ?rows = "map (\<lambda>i. concat (map (\<lambda>a. feature_row a i) (map reshape_if_1d stored))) [0..<?n]"
  from assms Cons s have ok: "list_all (is_2d_with_rows ?n) (map reshape_if_1d rest)"
    and a: "a = Arr2 (sum_list (map native_width (map reshape_if_1d stored))) ?rows"
    by (auto split: if_splits)
  have n: "nrows s = ?n"
    using reshape_if_1d_facts(2) [of s] s by simp
  from ok have rest: "list_all (\<lambda>s. nrows s = ?n) rest"
    by (simp add: list_all_iff reshape_if_1d_facts(3))
  with n Cons have all: "list_all (\<lambda>s. nrows s = ?n) stored"
    by simp
  have w: "sum_list (map native_width (map reshape_if_1d stored))
             = sum_list (map native_width stored)"
    by (simp add: comp_def reshape_if_1d_facts(1))
  have row: "?rows ! i = concat (map (\<lambda>s. feature_row s i) stored)" if "i < ?n" for i
  proof -
    have eq: "map (\<lambda>a. feature_row a i) (map reshape_if_1d stored)
            = map (\<lambda>s. feature_row s i) stored"
      using all that by (auto simp: list_all_iff reshape_if_1d_facts(4))
    have "?rows ! i = concat (map (\<lambda>a. feature_row a i) (map reshape_if_1d stored))"
      using that by (simp del: map_map)
    with eq show ?thesis by (simp only:)
  qed
  from a w all row show ?thesis by simp
qed

lemma feature_row_length:
  "wf_array s \<Longrightarrow> i < nrows s \<Longrightarrow> length (feature_row s i) = native_width s"
  by (cases s) (auto simp: list_all_iff)

lemma concat_rows_length:
  assumes "list_all wf_array stored" and "list_all (\<lambda>s. i < nrows s) stored"
  shows "length (concat (map (\<lambda>s. feature_row s i) stored)) = sum_list (map native_width stored)"
  using assms by (induction stored) (simp_all add: feature_row_length)

lemma assemble_graph_x:
  "assemble_graph tc gs fname en grp = Inr d \<Longrightarrow> load_x gs grp = Inr (data_x d)"
  by (auto simp: assemble_graph_def split: sum.splits)

text \<open>
  C8: in every assembled graph sample the node matrix has as many columns as the native
  widths of the requested features that are not metafeatures add up to (1 for a stored
  one-dimensional array, \<open>k\<close> for a two-dimensional one of width \<open>k\<close>), each row is the
  concatenation of the features' rows in the order of the feature specification, and the
  node count is the row count alone: every requested feature has that many rows.  When the
  stored arrays are rectangular, so is the matrix.
\<close>

theorem node_matrix_width:
  assumes "assemble_graph tc gs fname en grp = Inr d"
  shows "\<exists>stored rows.
           map (map_of (nodes grp)) (filter (\<lambda>f. \<not> is_metafeature f) (node_features gs))
             = map Some stored
           \<and> data_x d = Arr2 (sum_list (map native_width stored)) rows
           \<and> list_all (\<lambda>s. nrows s = length rows) stored
           \<and> (\<forall>i<length rows. rows ! i = concat (map (\<lambda>s. feature_row s i) stored))
           \<and> (list_all wf_array stored \<longrightarrow>
                list_all (\<lambda>r. length r = sum_list (map native_width stored)) rows)"
proof -
  from assemble_graph_x [OF assms] obtain arrs where
    rf: "read_features (nodes grp) (node_features gs) = Inr arrs"
    and hs: "hstack arrs = Inr (data_x d)"
    by (auto simp: load_x_def split: sum.splits)
  from read_features_stored [OF rf] obtain stored where
    st: "map (map_of (nodes grp)) (filter (\<lambda>f. \<not> is_metafeature f) (node_features gs))
           = map Some stored"
    and arrs: "arrs = map reshape_if_1d stored" by blast
  from hstack_reshaped [OF hs [unfolded arrs]] obtain rows where
    x: "data_x d = Arr2 (sum_list (map native_width stored)) rows"
    and n: "list_all (\<lambda>s. nrows s = length rows) stored"
    and r: "\<forall>i<length rows. rows ! i = concat (map (\<lambda>s. feature_row s i) stored)"
    by blast
  have "list_all (\<lambda>r. length r = sum_list (map native_width stored)) rows"
    if wf: "list_all wf_array stored"
  proof -
    have "length (rows ! i) = sum_list (map native_width stored)" if "i < length rows" for i
    proof -
      from n that have "list_all (\<lambda>s. i < nrows s) stored"
        by (simp add: list_all_iff)
      from concat_rows_length [OF wf this] r that show ?thesis by simp
    qed
    then show ?thesis
      by (auto simp: list_all_iff in_set_conv_nth)
  qed
  with st x n r show ?thesis by blast
qed


theorem node_matrix_width_witness:
  "assemble_graph real_torch example_graph_dataset ''a.hdf5'' ''e1'' example_entry
     = Inr \<lparr>data_x = Arr2 3 [[1, 3, 4], [2, 5, 6]],
            data_edge_index = Arr2 2 [[0, 1], [1, 0]],
            data_edge_attr = Arr2 1 [[5], [5]],
            data_y = Some 10,
            data_pos = Arr2 3 [[0, 0, 0], [1, 1, 1]],
            data_cluster0 = None, data_cluster1 = None,
            data_entry_names = [''e1'']\<rparr>
   \<and> native_width (Arr1 [1, 2 :: real]) + native_width (Arr2 2 [[3, 4], [5, 6 :: real]]) = 3"
proof -
  have eq: "assemble_graph real_torch example_graph_dataset ''a.hdf5'' ''e1'' example_entry
     = Inr \<lparr>data_x = Arr2 3 [[1, 3, 4], [2, 5, 6]],
            data_edge_index = Arr2 2 [[0, 1], [1, 0]],
            data_edge_attr = Arr2 1 [[5], [5]],
            data_y = Some 10,
            data_pos = Arr2 3 [[0, 0, 0], [1, 1, 1]],
            data_cluster0 = None, data_cluster1 = None,
            data_entry_names = [''e1'']\<rparr>"
    by (simp add: example_defs assembly_defs)
  from node_matrix_width [OF eq] eq show ?thesis by simp
qed

lemma pair_nth: "length p = 2 \<Longrightarrow> [p ! 0, p ! Suc 0] = p"
  by (cases p; cases "tl p") auto

lemma load_edge_index_pairs:
  assumes "edges grp = Some eg" and "e_index eg = Some (Arr2 2 pairs)"
  shows "load_edge_index grp
           = Inr (Arr2 (2 * length pairs)
                   [map (\<lambda>p. p ! 0) (pairs @ map rev pairs),
                    map (\<lambda>p. p ! Suc 0) (pairs @ map rev pairs)])"
  using assms by (simp add: load_edge_index_def vstack_def flip1_def upt_rec)

lemma hstack_nonempty: "hstack arrs = Inr a \<Longrightarrow> arrs \<noteq> []"
  by auto

lemma load_edge_attr_rows:
  assumes "edge_features gs = Some (feat # feats)" and "edges grp = Some eg"
    and "edge_features_transform gs = map_array f"
    and "load_edge_attr gs grp ei = Inr ea"
  shows "\<exists>stored half.
           map (map_of (e_feats eg)) (filter (\<lambda>f. \<not> is_metafeature f) (feat # feats))
             = map Some stored
           \<and> stored \<noteq> []
           \<and> list_all (\<lambda>s. nrows s = length half) stored
           \<and> (\<forall>k<length half.
                 half ! k = map f (concat (map (\<lambda>s. feature_row s k) stored)))
           \<and> ea = Arr2 (sum_list (map native_width stored)) (half @ half)"
proof -
  from assms obtain arrs a where
    rf: "read_features (e_feats eg) (feat # feats) = Inr arrs"
    and hs: "hstack arrs = Inr a"
    by (auto simp: load_edge_attr_def split: sum.splits)
  from read_features_stored [OF rf] obtain stored where
    st: "map (map_of (e_feats eg)) (filter (\<lambda>f. \<not> is_metafeature f) (feat # feats))
           = map Some stored"
    and arrs: "arrs = map reshape_if_1d stored" by blast
  from hstack_nonempty [OF hs] arrs have ne: "stored \<noteq> []" by simp
  from hstack_reshaped [OF hs [unfolded arrs]] obtain rows where
    a: "a = Arr2 (sum_list (map native_width stored)) rows"
    and n: "list_all (\<lambda>s. nrows s = length rows) stored"
    and r: "\<forall>i<length rows. rows ! i = concat (map (\<lambda>s. feature_row s i) stored)"
    by blast
  from assms rf hs a have
    ea: "ea = Arr2 (sum_list (map native_width stored)) (map (map f) rows @ map (map f) rows)"
    by (simp add: load_edge_attr_def vstack_def)
  have "\<forall>k<length (map (map f) rows).
          map (map f) rows ! k = map f (concat (map (\<lambda>s. feature_row s k) stored))"
    using r by simp
  with st ne n ea show ?thesis
    by (intro exI [of _ stored] exI [of _ "map (map f) rows"]) simp
qed

lemma assemble_graph_edges:
  "assemble_graph tc gs fname en grp = Inr d \<Longrightarrow>
     load_edge_index grp = Inr (data_edge_index d)
     \<and> load_edge_attr gs grp (data_edge_index d) = Inr (data_edge_attr d)"
  by (auto simp: assemble_graph_def split: sum.splits)

text \<open>
  C5, as the code has it.  For an entry whose stored edge index holds \<open>N\<close> pairs, the edge
  index of the assembled sample has \<open>2N\<close> columns, column \<open>k\<close> is the stored pair \<open>k\<close> and
  column \<open>N + k\<close> is that pair reversed.  When edge attributes are assembled and the
  configured transform acts on each element by itself, as the default does, the attribute
  matrix has twice the rows of the stored features, an even number.  When moreover every
  requested stored feature has \<open>N\<close> rows, the matrix has \<open>2N\<close> rows, row \<open>k\<close>, which belongs
  to column \<open>k\<close> of the edge index, is the transformed stored row \<open>k\<close>, and row \<open>N + k\<close>,
  which belongs to the reversed pair, equals it.
\<close>

theorem edge_symmetrization:
  assumes "assemble_graph tc gs fname en grp = Inr d"
    and "edges grp = Some eg" and "e_index eg = Some (Arr2 2 pairs)"
    and "list_all (\<lambda>p. length p = 2) pairs"
  shows "native_width (data_edge_index d) = 2 * length pairs
         \<and> (\<forall>k<length pairs.
               column (data_edge_index d) k = pairs ! k
               \<and> column (data_edge_index d) (length pairs + k) = rev (pairs ! k))
         \<and> (edge_features gs = Some (feat # feats)
              \<and> edge_features_transform gs = map_array f \<longrightarrow>
            (\<exists>stored w rows.
               map (map_of (e_feats eg)) (filter (\<lambda>f. \<not> is_metafeature f) (feat # feats))
                 = map Some stored
               \<and> data_edge_attr d = Arr2 w rows
               \<and> list_all (\<lambda>s. 2 * nrows s = length rows) stored
               \<and> even (length rows)
               \<and> (list_all (\<lambda>s. nrows s = length pairs) stored \<longrightarrow>
                    length rows = 2 * length pairs
                    \<and> (\<forall>k<length pairs.
                          rows ! k = map f (concat (map (\<lambda>s. feature_row s k) stored))
                          \<and> rows ! (length pairs + k) = rows ! k))))"
proof -
  note e = assemble_graph_edges [OF assms(1)]
  let ?all = "pairs @ map rev pairs"
  from e load_edge_index_pairs [OF assms(2,3)] have
    ei: "data_edge_index d
           = Arr2 (2 * length pairs) [map (\<lambda>p. p ! 0) ?all, map (\<lambda>p. p ! Suc 0) ?all]"
    by simp
  have cols: "column (data_edge_index d) k = pairs ! k
              \<and> column (data_edge_index d) (length pairs + k) = rev (pairs ! k)"
    if "k < length pairs" for k
  proof -
    from that assms(4) have len: "length (pairs ! k) = 2"
      by (simp add: list_all_iff)
    then have "length (rev (pairs ! k)) = 2" by simp
    from pair_nth [OF len] pair_nth [OF this] that show ?thesis
      by (simp add: ei nth_append)
  qed
  have attr: "\<exists>stored w rows.
               map (map_of (e_feats eg)) (filter (\<lambda>f. \<not> is_metafeature f) (feat # feats))
                 = map Some stored
               \<and> data_edge_attr d = Arr2 w rows
               \<and> list_all (\<lambda>s. 2 * nrows s = length rows) stored
               \<and> even (length rows)
               \<and> (list_all (\<lambda>s. nrows s = length pairs) stored \<longrightarrow>
                    length rows = 2 * length pairs
                    \<and> (\<forall>k<length pairs.
                          rows ! k = map f (concat (map (\<lambda>s. feature_row s k) stored))
                          \<and> rows ! (length pairs + k) = rows ! k))"
    if "edge_features gs = Some (feat # feats)" "edge_features_transform gs = map_array f"
  proof -
    from e have "load_edge_attr gs grp (data_edge_index d) = Inr (data_edge_attr d)" by simp
    from load_edge_attr_rows [OF that(1) assms(2) that(2) this]
    obtain stored half where
      st: "map (map_of (e_feats eg)) (filter (\<lambda>f. \<not> is_metafeature f) (feat # feats))
             = map Some stored"
      and ne: "stored \<noteq> []"
      and n: "list_all (\<lambda>s. nrows s = length half) stored"
      and r: "\<forall>k<length half. half ! k = map f (concat (map (\<lambda>s. feature_row s k) stored))"
      and ea: "data_edge_attr d = Arr2 (sum_list (map native_width stored)) (half @ half)"
      by blast
    have a: "list_all (\<lambda>s. 2 * nrows s = length (half @ half)) stored"
      using n by (simp add: list_all_iff)
    have b: "even (length (half @ half))" by simp
    have c: "length (half @ half) = 2 * length pairs
             \<and> (\<forall>k<length pairs.
                   (half @ half) ! k = map f (concat (map (\<lambda>s. feature_row s k) stored))
                   \<and> (half @ half) ! (length pairs + k) = (half @ half) ! k)"
      if m: "list_all (\<lambda>s. nrows s = length pairs) stored"
    proof -
      from ne obtain s where "s \<in> set stored" by (cases stored) auto
      with n m have "length half = length pairs"
        by (auto simp: list_all_iff)
      with r show ?thesis by (simp add: nth_append)
    qed
    from st ea a b c show ?thesis by blast
  qed
  from ei cols attr show ?thesis by simp
qed

theorem edge_symmetrization_witness:
  "assemble_graph real_torch example_graph_dataset ''a.hdf5'' ''e1'' example_entry
     = Inr \<lparr>data_x = Arr2 3 [[1, 3, 4], [2, 5, 6]],
            data_edge_index = Arr2 2 [[0, 1], [1, 0]],
            data_edge_attr = Arr2 1 [[5], [5]],
            data_y = Some 10,
            data_pos = Arr2 3 [[0, 0, 0], [1, 1, 1]],
            data_cluster0 = None, data_cluster1 = None,
            data_entry_names = [''e1'']\<rparr>
   \<and> column (Arr2 2 [[0, 1], [1, 0 :: real]]) 0 = [0, 1]
   \<and> column (Arr2 2 [[0, 1], [1, 0 :: real]]) 1 = [1, 0]
   \<and> [[5], [5 :: real]] ! 0 = [[5], [5]] ! 1"
proof -
  have eq: "assemble_graph real_torch example_graph_dataset ''a.hdf5'' ''e1'' example_entry
     = Inr \<lparr>data_x = Arr2 3 [[1, 3, 4], [2, 5, 6]],
            data_edge_index = Arr2 2 [[0, 1], [1, 0]],
            data_edge_attr = Arr2 1 [[5], [5]],
            data_y = Some 10,
            data_pos = Arr2 3 [[0, 0, 0], [1, 1, 1]],
            data_cluster0 = None, data_cluster1 = None,
            data_entry_names = [''e1'']\<rparr>"
    by (simp add: example_defs assembly_defs)
  have eg: "edges example_entry
              = Some \<lparr>e_index = Some (Arr2 2 [[0, 1]]), e_feats = [(''dist'', Arr1 [5])]\<rparr>"
    by (simp add: example_entry_def)
  have ix: "e_index \<lparr>e_index = Some (Arr2 2 [[0, 1 :: real]]), e_feats = [(''dist'', Arr1 [5 :: real])]\<rparr>
              = Some (Arr2 2 [[0, 1]])"
    by simp
  have wf: "list_all (\<lambda>p. length p = 2) [[0, 1 :: real]]"
    by simp
  have ef: "edge_features example_graph_dataset = Some [''dist'']"
    and et: "edge_features_transform example_graph_dataset = map_array (\<lambda>v. v)"
    by (simp_all add: example_graph_dataset_def)
  from edge_symmetrization [OF eq eg ix wf, of "''dist''" "[]" "\<lambda>v. v"] ef et
  obtain stored w rows where
    st: "map (map_of [(''dist'', Arr1 [5 :: real])])
           (filter (\<lambda>f. \<not> is_metafeature f) [''dist'']) = map Some stored"
    and ea: "Arr2 1 [[5], [5 :: real]] = Arr2 w rows"
    and link: "list_all (\<lambda>s. nrows s = 1) stored \<longrightarrow>
                 length rows = 2 \<and> rows ! 1 = rows ! 0"
    by (auto simp: eq)
  from st have "stored = [Arr1 [5]]"
    by (auto simp: is_metafeature_def map_eq_Cons_conv)
  with link ea have "[[5], [5 :: real]] ! 1 = [[5], [5]] ! 0"
    by simp
  with eq show ?thesis by simp
qed

text \<open>
  The claim C5 as it is written fails for a configured transform that is not elementwise:
  with \<open>add_row_number\<close> the one stored edge \<open>(0, 1)\<close> with attribute \<open>5\<close> gets the row \<open>[5]\<close>
  and its reverse \<open>(1, 0)\<close> the row \<open>[6]\<close>.  It fails as well, under the identity
  transform, for a store whose edge feature has more rows than the index has pairs: with
  the index \<open>[[0, 1]]\<close> and the feature \<open>[5, 6]\<close> the edge \<open>(0, 1)\<close> carries \<open>[5]\<close> and the
  edge \<open>(1, 0)\<close> carries \<open>[6]\<close>.
\<close>

theorem edge_transform_counterexample:
  "assemble_graph real_torch
     (example_graph_dataset\<lparr>edge_features_transform := add_row_number\<rparr>)
     ''a.hdf5'' ''e1'' example_entry
     = Inr \<lparr>data_x = Arr2 3 [[1, 3, 4], [2, 5, 6]],
            data_edge_index = Arr2 2 [[0, 1], [1, 0]],
            data_edge_attr = Arr2 1 [[5], [6]],
            data_y = Some 10,
            data_pos = Arr2 3 [[0, 0, 0], [1, 1, 1]],
            data_cluster0 = None, data_cluster1 = None,
            data_entry_names = [''e1'']\<rparr>
   \<and> assemble_graph real_torch example_graph_dataset ''a.hdf5'' ''e1''
       (example_entry\<lparr>edges :=
          Some \<lparr>e_index = Some (Arr2 2 [[0, 1]]), e_feats = [(''dist'', Arr1 [5, 6])]\<rparr>\<rparr>)
     = Inr \<lparr>data_x = Arr2 3 [[1, 3, 4], [2, 5, 6]],
            data_edge_index = Arr2 2 [[0, 1], [1, 0]],
            data_edge_attr = Arr2 1 [[5], [6], [5], [6]],
            data_y = Some 10,
            data_pos = Arr2 3 [[0, 0, 0], [1, 1, 1]],
            data_cluster0 = None, data_cluster1 = None,
            data_entry_names = [''e1'']\<rparr>"
  by (simp add: example_defs assembly_defs enumerate_eq_zip)

text \<open>
  C6: at access time, when the configured target is stored in the entry and the transform
  flag is set, the sample carries \<open>sigmoid (log v)\<close> iff the task is regression, and the
  assembly raises \<^verbatim>\<open>ValueError\<close> iff it is not; with the flag unset the sample carries \<open>v\<close>.
  This is what the target block returns, and what the assembly returns once the blocks
  before the target have loaded; whether the positions load is left open.
\<close>

theorem target_transform_guard:
  assumes "target gs = Some t" and "target_values grp = Some tv" and "map_of tv t = Some v"
  shows "load_y tc gs fname en grp =
           (if target_transform gs then
              (if task gs = Some REGRESS
               then Inr (Some (torch_sigmoid tc (torch_log tc v)))
               else Inl (ValueError (TaskNotRegress (task gs))))
            else Inr (Some v))
         \<and> (load_x gs grp = Inr x \<and> load_edge_index grp = Inr ei
              \<and> load_edge_attr gs grp ei = Inr ea \<longrightarrow>
            (target_transform gs \<and> task gs \<noteq> Some REGRESS \<longrightarrow>
               assemble_graph tc gs fname en grp
                 = Inl (ValueError (TaskNotRegress (task gs))))
            \<and> (\<not> (target_transform gs \<and> task gs \<noteq> Some REGRESS) \<longrightarrow>
               assemble_graph tc gs fname en grp =
                 (case load_pos grp of
                    Inl e \<Rightarrow> Inl e
                  | Inr pos \<Rightarrow>
                      Inr \<lparr>data_x = x, data_edge_index = ei, data_edge_attr = ea,
                           data_y = (if target_transform gs
                                     then Some (torch_sigmoid tc (torch_log tc v))
                                     else Some v),
                           data_pos = pos,
                           data_cluster0 = fst (load_clusters gs grp),
                           data_cluster1 = snd (load_clusters gs grp),
                           data_entry_names = [en]\<rparr>)))"
  using assms by (auto simp: assemble_graph_def load_y_def split: sum.splits)

theorem target_transform_guard_witness:
  "assemble_graph real_torch
     (example_graph_dataset\<lparr>target := Some ''dockq'', target_transform := True\<rparr>)
     ''a.hdf5'' ''e1'' (example_entry\<lparr>target_values := Some [(''dockq'', 1)]\<rparr>)
   = Inr \<lparr>data_x = Arr2 3 [[1, 3, 4], [2, 5, 6]],
          data_edge_index = Arr2 2 [[0, 1], [1, 0]],
          data_edge_attr = Arr2 1 [[5], [5]],
          data_y = Some (1 / 2),
          data_pos = Arr2 3 [[0, 0, 0], [1, 1, 1]],
          data_cluster0 = None, data_cluster1 = None,
          data_entry_names = [''e1'']\<rparr>
   \<and> assemble_graph real_torch
     (example_graph_dataset\<lparr>target := Some ''dockq'', target_transform := True,
        task := Some CLASSIF\<rparr>)
     ''a.hdf5'' ''e1'' (example_entry\<lparr>target_values := Some [(''dockq'', 1)]\<rparr>)
   = Inl (ValueError (TaskNotRegress (Some CLASSIF)))
   \<and> assemble_graph real_torch
     (example_graph_dataset\<lparr>target := Some ''dockq'', task := Some CLASSIF\<rparr>)
     ''a.hdf5'' ''e1'' (example_entry\<lparr>target_values := Some [(''dockq'', 1)]\<rparr>)
   = Inr \<lparr>data_x = Arr2 3 [[1, 3, 4], [2, 5, 6]],
          data_edge_index = Arr2 2 [[0, 1], [1, 0]],
          data_edge_attr = Arr2 1 [[5], [5]],
          data_y = Some 1,
          data_pos = Arr2 3 [[0, 0, 0], [1, 1, 1]],
          data_cluster0 = None, data_cluster1 = None,
          data_entry_names = [''e1'']\<rparr>"
proof -
  let ?grp = "example_entry\<lparr>target_values := Some [(''dockq'', 1)]\<rparr>"
  let ?gs = "example_graph_dataset\<lparr>target := Some ''dockq'', target_transform := True\<rparr>"
  let ?x = "Arr2 3 [[1, 3, 4], [2, 5, 6 :: real]]"
  let ?ei = "Arr2 2 [[0, 1], [1, 0 :: real]]"
  let ?ea = "Arr2 1 [[5], [5 :: real]]"
  have tv: "target_values ?grp = Some [(''dockq'', 1)]"
    and v: "map_of [(''dockq'', 1 :: real)] ''dockq'' = Some 1"
    by simp_all
  have x: "load_x gs ?grp = Inr ?x"
    if "node_features gs = [''_meta'', ''bsa'', ''pssm'']" for gs :: "real graph_dataset"
    using that by (simp add: load_x_def example_entry_def upt_rec)
  have ei: "load_edge_index ?grp = Inr ?ei"
    by (simp add: load_edge_index_def example_entry_def vstack_def flip1_def upt_rec)
  have ea: "load_edge_attr gs ?grp ?ei = Inr ?ea"
    if "edge_features gs = Some [''dist'']"
      and "edge_features_transform gs = map_array (\<lambda>v. v)" for gs :: "real graph_dataset"
    using that by (simp add: load_edge_attr_def example_entry_def vstack_def upt_rec)
  have nf: "node_features example_graph_dataset = [''_meta'', ''bsa'', ''pssm'']"
    and ef: "edge_features example_graph_dataset = Some [''dist'']"
    and et: "edge_features_transform example_graph_dataset = map_array (\<lambda>v. v)"
    by (simp_all add: example_graph_dataset_def)
  note g = target_transform_guard [where tc = real_torch and fname = "''a.hdf5''"
      and en = "''e1''" and grp = ?grp and t = "''dockq''" and v = 1 and x = ?x and ei = ?ei
      and ea = ?ea, OF _ tv v]
  show ?thesis
    using g [of ?gs] g [of "?gs\<lparr>task := Some CLASSIF\<rparr>"]
      g [of "example_graph_dataset\<lparr>target := Some ''dockq'', task := Some CLASSIF\<rparr>"]
      x ea ei nf ef et
    by (simp add: real_torch_def load_pos_def load_clusters_def REGRESS_def CLASSIF_def
        example_graph_dataset_def example_entry_def)
qed

text \<open>
  C7: when a target name is configured and the target group of the entry does not store
  it, the target block raises a \<^verbatim>\<open>ValueError\<close> that carries the target name, the entry,
  the file and the names the group does store, and so does \<^verbatim>\<open>load_one_graph\<close> once it has read
  nodes and edges.
\<close>

theorem target_missing_error:
  assumes "target gs = Some t" and "target_values grp = Some tv" and "t \<notin> set (keys tv)"
  shows "load_y tc gs fname en grp = Inl (ValueError (TargetMissing t en fname (keys tv)))
         \<and> (st fname = Some fh \<and> map_of fh en = Some grp
              \<and> load_x gs grp = Inr x \<and> load_edge_index grp = Inr ei
              \<and> load_edge_attr gs grp ei = Inr ea \<longrightarrow>
            load_one_graph tc gs st fname en
              = Inl (ValueError (TargetMissing t en fname (keys tv))))"
proof -
  have "map_of tv t = None"
    using assms(3) keys_map_of [of t tv] by simp
  then have "load_y tc gs fname en grp
               = Inl (ValueError (TargetMissing t en fname (keys tv)))"
    using assms(1,2) by (simp add: load_y_def)
  then show ?thesis
    by (simp add: load_one_graph_def assemble_graph_def)
qed

theorem target_missing_error_witness:
  "graph_get real_torch (example_graph_dataset\<lparr>target := Some ''dockq''\<rparr>) example_store 0
     = Inl (ValueError (TargetMissing ''dockq'' ''e1'' ''a.hdf5'' [''a'']))"
proof -
  let ?gs = "example_graph_dataset\<lparr>target := Some ''dockq''\<rparr>"
  have st: "example_store ''a.hdf5''
              = Some [(''e1'', example_entry), (''e2'', example_entry), (''e3'', example_entry)]"
    by (simp add: example_store_def)
  have grp: "map_of [(''e1'', example_entry), (''e2'', example_entry), (''e3'', example_entry)]
               ''e1'' = Some example_entry"
    by simp
  have tv: "target_values example_entry = Some [(''a'', 10)]"
    by (simp add: example_entry_def)
  have x: "load_x ?gs example_entry = Inr (Arr2 3 [[1, 3, 4], [2, 5, 6]])"
    by (simp add: load_x_def example_entry_def example_graph_dataset_def upt_rec)
  have ei: "load_edge_index example_entry = Inr (Arr2 2 [[0, 1], [1, 0]])"
    by (simp add: load_edge_index_def example_entry_def vstack_def flip1_def upt_rec)
  have ea: "load_edge_attr ?gs example_entry (Arr2 2 [[0, 1], [1, 0]]) = Inr (Arr2 1 [[5], [5]])"
    by (simp add: load_edge_attr_def example_entry_def example_graph_dataset_def
        vstack_def upt_rec)
  have t: "target ?gs = Some ''dockq''" and k: "''dockq'' \<notin> set (keys [(''a'', 10 :: real)])"
    by (simp_all add: keys_def)
  have "load_one_graph real_torch ?gs example_store ''a.hdf5'' ''e1''
          = Inl (ValueError (TargetMissing ''dockq'' ''e1'' ''a.hdf5'' (keys [(''a'', 10 :: real)])))"
    using target_missing_error [where st = example_store and fname = "''a.hdf5''"
        and en = "''e1''" and tc = real_torch
        and fh = "[(''e1'', example_entry), (''e2'', example_entry), (''e3'', example_entry)]"
        and x = "Arr2 3 [[1, 3, 4], [2, 5, 6]]" and ei = "Arr2 2 [[0, 1], [1, 0]]"
        and ea = "Arr2 1 [[5], [5]]", OF t tv k] st grp x ei ea
    by simp
  then show ?thesis
    by (simp add: graph_get_def list_getitem_def example_graph_dataset_def keys_def)
qed

section \<open>Properties of length and access\<close>












end
